theory Spec2Isabelle
  imports Main
begin

section \<open>Data model (src/types.ts)\<close>

text \<open>
  The three interfaces of \<^verbatim>\<open>types.ts\<close> as records. The source uses the field names
  \<^verbatim>\<open>id\<close>, \<^verbatim>\<open>name\<close> and \<^verbatim>\<open>password\<close> in several interfaces and \<^verbatim>\<open>id\<close> is a HOL
  constant, so every field carries the initial of its interface. An optional field
  (\<^verbatim>\<open>password?: string\<close>) is an \<open>option\<close>: \<open>None\<close> is the absent field, which is also what
  a field set to \<^verbatim>\<open>undefined\<close> becomes once the record went through JSON.
\<close>

record user =
  u_id :: string
  u_name :: string
  u_email :: string
  u_password :: "string option"
  u_avatar :: string
  u_isOnline :: bool
  u_bio :: "string option"

record room =
  r_id :: string
  r_name :: string
  r_isPrivate :: bool
  r_password :: "string option"
  r_createdBy :: string
  r_description :: "string option"

datatype msg_type = Text | Image

record message =
  m_id :: string
  m_roomId :: string
  m_senderId :: string
  m_senderName :: string
  m_senderAvatar :: string
  m_content :: string
  m_type :: msg_type
  m_timestamp :: nat

text \<open>\<^verbatim>\<open>Omit<Room, 'id'>\<close>, the argument of \<^verbatim>\<open>createRoom\<close>.\<close>

record room_input =
  ri_name :: string
  ri_isPrivate :: bool
  ri_password :: "string option"
  ri_createdBy :: string
  ri_description :: "string option"

text \<open>\<^verbatim>\<open>Omit<Message, 'id' | 'timestamp'>\<close>, the argument of \<^verbatim>\<open>sendMessage\<close>.\<close>

record message_input =
  mi_roomId :: string
  mi_senderId :: string
  mi_senderName :: string
  mi_senderAvatar :: string
  mi_content :: string
  mi_type :: msg_type

section \<open>The mock backend (src/services/mockBackend.ts)\<close>

subsection \<open>Seed data\<close>

definition INITIAL_USERS :: "user list" where
  "INITIAL_USERS =
    [\<lparr>u_id = ''u1'', u_name = ''Alice Test'', u_email = ''user1@test.com'',
      u_password = Some ''password123'', u_avatar = ''https://picsum.photos/seed/u1/200'',
      u_isOnline = False, u_bio = Some ''Love coding!''\<rparr>,
     \<lparr>u_id = ''u2'', u_name = ''Bob Test'', u_email = ''user2@test.com'',
      u_password = Some ''password123'', u_avatar = ''https://picsum.photos/seed/u2/200'',
      u_isOnline = False, u_bio = Some ''Python enthusiast''\<rparr>,
     \<lparr>u_id = ''u3'', u_name = ''Charlie Test'', u_email = ''user3@test.com'',
      u_password = Some ''password123'', u_avatar = ''https://picsum.photos/seed/u3/200'',
      u_isOnline = False, u_bio = None\<rparr>,
     \<lparr>u_id = ''u4'', u_name = ''Dave Test'', u_email = ''user4@test.com'',
      u_password = Some ''password123'', u_avatar = ''https://picsum.photos/seed/u4/200'',
      u_isOnline = False, u_bio = None\<rparr>,
     \<lparr>u_id = ''u5'', u_name = ''Eve Test'', u_email = ''user5@test.com'',
      u_password = Some ''password123'', u_avatar = ''https://picsum.photos/seed/u5/200'',
      u_isOnline = False, u_bio = None\<rparr>]"

definition INITIAL_ROOMS :: "room list" where
  "INITIAL_ROOMS =
    [\<lparr>r_id = ''r1'', r_name = ''General Lobby'', r_isPrivate = False, r_password = None,
      r_createdBy = ''system'', r_description = Some ''Welcome everyone!''\<rparr>,
     \<lparr>r_id = ''r2'', r_name = ''Python Devs'', r_isPrivate = False, r_password = None,
      r_createdBy = ''system'', r_description = Some ''Talk about FastAPI''\<rparr>,
     \<lparr>r_id = ''r3'', r_name = ''Secret Club'', r_isPrivate = True, r_password = Some ''123'',
      r_createdBy = ''u1'', r_description = Some ''Shhh... Password is 123''\<rparr>]"

subsection \<open>Events, errors and the state\<close>

text \<open>
  \<^verbatim>\<open>broadcast(type, payload)\<close> is called with six type strings; each is a constructor
  carrying its payload (\<^verbatim>\<open>{ roomId }\<close> and \<^verbatim>\<open>{ userId }\<close> are the string they wrap).
\<close>

datatype event =
    NEW_MESSAGE message
  | ROOM_CREATED room
  | ROOM_DELETED string
  | USER_UPDATE user
  | USER_JOINED user
  | USER_LEFT string

text \<open>
  The rejections of a command. The source throws \<^verbatim>\<open>Error('Invalid credentials')\<close>
  (\<open>InvalidCredentials\<close>) and \<^verbatim>\<open>Error('Email already exists')\<close> (\<open>EmailTaken\<close>) and
  nothing else; the other four constructors are the remaining names of the specification's
  taxonomy, which no command of the source ever produces.
\<close>

datatype error =
    InvalidCredentials
  | EmailTaken
  | MissingPassword
  | NotOwner
  | RoomNotFound
  | StoreCorrupt

text \<open>
  Every command is an \<^verbatim>\<open>async\<close> function: its promise is rejected with an error
  (\<open>Inl\<close>) or fulfilled with a value (\<open>Inr\<close>).
\<close>

type_synonym 'a promise = "error + 'a"

text \<open>
  The state the module works on: the three keys of \<^verbatim>\<open>localStorage\<close> (\<open>None\<close> while
  a key was never written), the module-level \<^verbatim>\<open>listeners\<close> set, and the broadcasts handed
  to \<^verbatim>\<open>setTimeout\<close> that have not fired yet. A JavaScript \<^verbatim>\<open>Set\<close> iterates in insertion
  order and holds no element twice, so it is a list, kept duplicate-free by
  \<open>subscribeToSocket\<close>; a listener is named by a number, functions being compared by
  identity. All broadcasts use the same delay of 100 ms, so their timers fire in the order
  they were started: \<open>pending\<close> is a queue.
\<close>

record backend =
  chat_users :: "user list option"
  chat_rooms :: "room list option"
  chat_messages :: "message list option"
  listeners :: "nat list"
  pending :: "event list"

subsection \<open>Storage helpers\<close>

text \<open>
  \<^verbatim>\<open>getStorage(key, init)\<close>: the stored value, or \<^verbatim>\<open>init\<close> after writing it under the key.
  The result is the value read together with the key's new content. (The stored text is
  the JSON of a list, never the empty string, so \<^verbatim>\<open>if (stored)\<close> tests presence.)
\<close>

definition getStorage :: "'a option \<Rightarrow> 'a \<Rightarrow> 'a \<times> 'a option" where
  "getStorage stored init =
     (case stored of Some v \<Rightarrow> (v, Some v) | None \<Rightarrow> (init, Some init))"

subsection \<open>Template literals\<close>

text \<open>
  \<^verbatim>\<open>`u${Date.now()}`\<close> prints the clock reading in decimal. \<^verbatim>\<open>Date.now()\<close> is the number
  of milliseconds since the epoch, a natural number here; the commands that read the clock
  take the reading as an argument, one argument for each call of \<^verbatim>\<open>Date.now()\<close>.
\<close>

definition digit_char :: "nat \<Rightarrow> char" where
  "digit_char d = char_of (48 + d)"

fun show_nat :: "nat \<Rightarrow> string" where
  "show_nat n =
     (if n < 10 then [digit_char n] else show_nat (n div 10) @ [digit_char (n mod 10)])"

declare show_nat.simps [simp del]

subsection \<open>Event bus\<close>

text \<open>\<^verbatim>\<open>subscribeToSocket\<close>: \<^verbatim>\<open>listeners.add(callback)\<close>; the function it returns is \<open>unsubscribe\<close>.\<close>

definition subscribeToSocket :: "nat \<Rightarrow> backend \<Rightarrow> backend" where
  "subscribeToSocket callback s =
     s\<lparr>listeners :=
         (if callback \<in> set (listeners s) then listeners s else listeners s @ [callback])\<rparr>"

definition unsubscribe :: "nat \<Rightarrow> backend \<Rightarrow> backend" where
  "unsubscribe callback s = s\<lparr>listeners := removeAll callback (listeners s)\<rparr>"

text \<open>\<^verbatim>\<open>broadcast\<close> only starts a timer; the listeners run when it fires.\<close>

definition broadcast :: "event \<Rightarrow> backend \<Rightarrow> backend" where
  "broadcast ev s = s\<lparr>pending := pending s @ [ev]\<rparr>"

text \<open>
  What a listener does with an event, as far as delivery is concerned: it returns or it
  throws. (A listener that subscribes or unsubscribes listeners while it runs is outside
  this model.)
\<close>

datatype handler_result = Returns | Throws

text \<open>
  \<^verbatim>\<open>listeners.forEach(l => l({ type, payload }))\<close>: the listeners are called in order, and
  an exception thrown by one leaves \<^verbatim>\<open>forEach\<close> at once, there being no \<^verbatim>\<open>try\<close> around the
  call. The result is the list of listeners that were called.
\<close>

fun forEach_listeners :: "(nat \<Rightarrow> event \<Rightarrow> handler_result) \<Rightarrow> event \<Rightarrow> nat list \<Rightarrow> nat list" where
  "forEach_listeners h ev [] = []"
| "forEach_listeners h ev (l # ls) =
     (case h l ev of
        Throws \<Rightarrow> [l]
      | Returns \<Rightarrow> l # forEach_listeners h ev ls)"

text \<open>
  The timer of the oldest pending broadcast fires: the listeners subscribed at that moment
  are run. The result lists the calls made, each a listener with the event it got.
\<close>

definition fire :: "(nat \<Rightarrow> event \<Rightarrow> handler_result) \<Rightarrow> backend \<Rightarrow> (nat \<times> event) list \<times> backend" where
  "fire h s =
     (case pending s of
        [] \<Rightarrow> ([], s)
      | ev # evs \<Rightarrow>
          (map (\<lambda>l. (l, ev)) (forEach_listeners h ev (listeners s)), s\<lparr>pending := evs\<rparr>))"

subsection \<open>Commands\<close>

text \<open>
  A command runs without interruption once its body starts: \<^verbatim>\<open>login\<close> and
  \<^verbatim>\<open>register\<close> first wait 500 ms and contain no further \<^verbatim>\<open>await\<close>, the others
  contain none. So a command is one step on the state, taken when its body runs.

  In \<^verbatim>\<open>login\<close>, \<^verbatim>\<open>user\<close> is the very object found in \<^verbatim>\<open>users\<close>, so
  \<^verbatim>\<open>user.isOnline = true\<close> also changes that element of the array; the \<^verbatim>\<open>map\<close> that
  follows puts \<^verbatim>\<open>user\<close> in its place anyway (it has \<^verbatim>\<open>user\<close>'s id), so the list
  written is the one computed here from the list as loaded.
\<close>

definition login :: "string \<Rightarrow> string \<Rightarrow> backend \<Rightarrow> user promise \<times> backend" where
  "login email password s =
     (let (users, stored) = getStorage (chat_users s) INITIAL_USERS;
          s1 = s\<lparr>chat_users := stored\<rparr>
      in case find (\<lambda>u. u_email u = email \<and> u_password u = Some password) users of
           None \<Rightarrow> (Inl InvalidCredentials, s1)
         | Some found \<Rightarrow>
             (let user = found\<lparr>u_isOnline := True\<rparr>;
                  updatedUsers = map (\<lambda>u. if u_id u = u_id user then user else u) users;
                  s2 = s1\<lparr>chat_users := Some updatedUsers\<rparr>
              in (Inr user, broadcast (USER_UPDATE user) s2)))"

text \<open>
  \<^verbatim>\<open>register\<close> reads the clock twice, for the id (\<open>t_id\<close>) and for the avatar's seed
  (\<open>t_avatar\<close>). \<open>newUser\<close> is the object literal it builds.
\<close>

definition newUser :: "string \<Rightarrow> string \<Rightarrow> string \<Rightarrow> nat \<Rightarrow> nat \<Rightarrow> user" where
  "newUser name email password t_id t_avatar =
     \<lparr>u_id = ''u'' @ show_nat t_id, u_name = name, u_email = email,
      u_password = Some password,
      u_avatar = ''https://picsum.photos/seed/'' @ show_nat t_avatar @ ''/200'',
      u_isOnline = True, u_bio = None\<rparr>"

definition register :: "string \<Rightarrow> string \<Rightarrow> string \<Rightarrow> nat \<Rightarrow> nat \<Rightarrow> backend \<Rightarrow> user promise \<times> backend" where
  "register name email password t_id t_avatar s =
     (let (users, stored) = getStorage (chat_users s) INITIAL_USERS;
          s1 = s\<lparr>chat_users := stored\<rparr>
      in if find (\<lambda>u. u_email u = email) users \<noteq> None then (Inl EmailTaken, s1)
         else
           (let user = newUser name email password t_id t_avatar;
                updatedUsers = users @ [user];
                s2 = s1\<lparr>chat_users := Some updatedUsers\<rparr>
            in (Inr user, broadcast (USER_JOINED user) s2)))"

definition logout :: "string \<Rightarrow> backend \<Rightarrow> unit promise \<times> backend" where
  "logout userId s =
     (let (users, stored) = getStorage (chat_users s) INITIAL_USERS;
          s1 = s\<lparr>chat_users := stored\<rparr>;
          updatedUsers = map (\<lambda>u. if u_id u = userId then u\<lparr>u_isOnline := False\<rparr> else u) users;
          s2 = s1\<lparr>chat_users := Some updatedUsers\<rparr>
      in (Inr (), broadcast (USER_LEFT userId) s2))"

definition getRooms :: "backend \<Rightarrow> room list promise \<times> backend" where
  "getRooms s =
     (let (rooms, stored) = getStorage (chat_rooms s) INITIAL_ROOMS
      in (Inr rooms, s\<lparr>chat_rooms := stored\<rparr>))"

text \<open>\<open>newRoom\<close> is \<^verbatim>\<open>{ ...room, id: `r${Date.now()}` }\<close>.\<close>

definition newRoom :: "room_input \<Rightarrow> nat \<Rightarrow> room" where
  "newRoom room t_id =
     \<lparr>r_id = ''r'' @ show_nat t_id, r_name = ri_name room,
      r_isPrivate = ri_isPrivate room, r_password = ri_password room,
      r_createdBy = ri_createdBy room, r_description = ri_description room\<rparr>"

definition createRoom :: "room_input \<Rightarrow> nat \<Rightarrow> backend \<Rightarrow> room promise \<times> backend" where
  "createRoom room t_id s =
     (let (rooms, stored) = getStorage (chat_rooms s) INITIAL_ROOMS;
          s1 = s\<lparr>chat_rooms := stored\<rparr>;
          created = newRoom room t_id;
          s2 = s1\<lparr>chat_rooms := Some (rooms @ [created])\<rparr>
      in (Inr created, broadcast (ROOM_CREATED created) s2))"

definition deleteRoom :: "string \<Rightarrow> backend \<Rightarrow> unit promise \<times> backend" where
  "deleteRoom roomId s =
     (let (rooms, stored) = getStorage (chat_rooms s) INITIAL_ROOMS;
          s1 = s\<lparr>chat_rooms := stored\<rparr>;
          updatedRooms = filter (\<lambda>r. r_id r \<noteq> roomId) rooms;
          s2 = s1\<lparr>chat_rooms := Some updatedRooms\<rparr>
      in (Inr (), broadcast (ROOM_DELETED roomId) s2))"

definition getUsers :: "backend \<Rightarrow> user list promise \<times> backend" where
  "getUsers s =
     (let (users, stored) = getStorage (chat_users s) INITIAL_USERS
      in (Inr users, s\<lparr>chat_users := stored\<rparr>))"

definition getMessages :: "string \<Rightarrow> backend \<Rightarrow> message list promise \<times> backend" where
  "getMessages roomId s =
     (let (allMessages, stored) = getStorage (chat_messages s) []
      in (Inr (filter (\<lambda>m. m_roomId m = roomId) allMessages), s\<lparr>chat_messages := stored\<rparr>))"

text \<open>
  \<^verbatim>\<open>sendMessage\<close> reads the clock twice, for the id (\<open>t_id\<close>) and for the timestamp
  (\<open>t_stamp\<close>). \<open>newMessage\<close> is the object literal it builds.
\<close>

definition newMessage :: "message_input \<Rightarrow> nat \<Rightarrow> nat \<Rightarrow> message" where
  "newMessage message t_id t_stamp =
     \<lparr>m_id = ''m'' @ show_nat t_id, m_roomId = mi_roomId message,
      m_senderId = mi_senderId message, m_senderName = mi_senderName message,
      m_senderAvatar = mi_senderAvatar message, m_content = mi_content message,
      m_type = mi_type message, m_timestamp = t_stamp\<rparr>"

definition sendMessage :: "message_input \<Rightarrow> nat \<Rightarrow> nat \<Rightarrow> backend \<Rightarrow> message promise \<times> backend" where
  "sendMessage message t_id t_stamp s =
     (let (allMessages, stored) = getStorage (chat_messages s) [];
          s1 = s\<lparr>chat_messages := stored\<rparr>;
          sent = newMessage message t_id t_stamp;
          s2 = s1\<lparr>chat_messages := Some (allMessages @ [sent])\<rparr>
      in (Inr sent, broadcast (NEW_MESSAGE sent) s2))"

subsection \<open>The collections as the commands read them\<close>

definition users_of :: "backend \<Rightarrow> user list" where
  "users_of s = fst (getStorage (chat_users s) INITIAL_USERS)"

definition rooms_of :: "backend \<Rightarrow> room list" where
  "rooms_of s = fst (getStorage (chat_rooms s) INITIAL_ROOMS)"

definition messages_of :: "backend \<Rightarrow> message list" where
  "messages_of s = fst (getStorage (chat_messages s) [])"

text \<open>The state of a page just loaded on an empty \<^verbatim>\<open>localStorage\<close>.\<close>

definition backend0 :: backend where
  "backend0 = \<lparr>chat_users = None, chat_rooms = None, chat_messages = None,
               listeners = [], pending = []\<rparr>"

text \<open>
  Successive calls of \<^verbatim>\<open>sendMessage\<close>, each awaited before the next: a call is its
  argument with its two clock readings.
\<close>

fun send_all :: "(message_input \<times> nat \<times> nat) list \<Rightarrow> backend \<Rightarrow> backend" where
  "send_all [] s = s"
| "send_all ((message, t_id, t_stamp) # calls) s =
     send_all calls (snd (sendMessage message t_id t_stamp s))"

section \<open>The chat view (src/components/ChatApp.tsx)\<close>

text \<open>
  The part of the component's state that joining a room reads and writes. Each
  \<^verbatim>\<open>useState\<close> cell is a field; a handler takes the view state and the backend and returns
  both. \<^verbatim>\<open>window.innerWidth\<close> is an argument.
\<close>

record chat_ui =
  activeRoomId :: "string option"
  messages :: "message list"
  sidebarOpen :: bool
  showPasswordModal :: bool
  pendingRoom :: "room option"
  joinPassword :: string
  joinError :: string

text \<open>The initial values given to \<^verbatim>\<open>useState\<close>.\<close>

definition chat_ui0 :: chat_ui where
  "chat_ui0 = \<lparr>activeRoomId = None, messages = [], sidebarOpen = False,
               showPasswordModal = False, pendingRoom = None, joinPassword = [],
               joinError = []\<rparr>"

definition executeJoinRoom :: "string \<Rightarrow> nat \<Rightarrow> chat_ui \<times> backend \<Rightarrow> unit promise \<times> chat_ui \<times> backend" where
  "executeJoinRoom roomId innerWidth st =
     (let (ui, b) = st;
          ui1 = ui\<lparr>activeRoomId := Some roomId\<rparr>;
          (res, b1) = getMessages roomId b
      in case res of
           Inl e \<Rightarrow> (Inl e, ui1, b1)
         | Inr msgs \<Rightarrow>
             (let ui2 = ui1\<lparr>messages := msgs\<rparr>;
                  ui3 = (if innerWidth < 768 then ui2\<lparr>sidebarOpen := False\<rparr> else ui2)
              in (Inr (), ui3, b1)))"

definition handleJoinRoom :: "room \<Rightarrow> nat \<Rightarrow> chat_ui \<times> backend \<Rightarrow> unit promise \<times> chat_ui \<times> backend" where
  "handleJoinRoom room innerWidth st =
     (let (ui, b) = st
      in if Some (r_id room) = activeRoomId ui then (Inr (), ui, b)
         else if r_isPrivate room then
           (Inr (), ui\<lparr>pendingRoom := Some room, joinPassword := [], joinError := [],
                       showPasswordModal := True\<rparr>, b)
         else executeJoinRoom (r_id room) innerWidth (ui, b))"

definition closePasswordModal :: "chat_ui \<Rightarrow> chat_ui" where
  "closePasswordModal ui =
     ui\<lparr>showPasswordModal := False, pendingRoom := None, joinPassword := [], joinError := []\<rparr>"

text \<open>
  The \<^verbatim>\<open>onChange\<close> of the password field of the modal:
  \<^verbatim>\<open>setJoinPassword(e.target.value); setJoinError('')\<close>.
\<close>

definition onJoinPasswordChange :: "string \<Rightarrow> chat_ui \<Rightarrow> chat_ui" where
  "onJoinPasswordChange v ui = ui\<lparr>joinPassword := v, joinError := []\<rparr>"

text \<open>
  \<^verbatim>\<open>joinPassword === pendingRoom.password\<close> compares a string with a string or
  \<^verbatim>\<open>undefined\<close>: no input equals an absent password.
\<close>

definition handleJoinPrivateSubmit :: "nat \<Rightarrow> chat_ui \<times> backend \<Rightarrow> unit promise \<times> chat_ui \<times> backend" where
  "handleJoinPrivateSubmit innerWidth st =
     (let (ui, b) = st
      in case pendingRoom ui of
           None \<Rightarrow> (Inr (), ui, b)
         | Some room \<Rightarrow>
             if Some (joinPassword ui) = r_password room then
               (case executeJoinRoom (r_id room) innerWidth (ui, b) of
                  (Inl e, ui1, b1) \<Rightarrow> (Inl e, ui1, b1)
                | (Inr u, ui1, b1) \<Rightarrow> (Inr (), closePasswordModal ui1, b1))
             else (Inr (), ui\<lparr>joinError := ''Incorrect password''\<rparr>, b))"

text \<open>
  \<^verbatim>\<open>handleDeleteRoom\<close>: the answer to \<^verbatim>\<open>window.confirm\<close> is an argument. A rejection of
  \<^verbatim>\<open>deleteRoom\<close> is caught and reported, the backend being as the command left it.
\<close>

definition handleDeleteRoom :: "bool \<Rightarrow> string \<Rightarrow> backend \<Rightarrow> backend" where
  "handleDeleteRoom confirmed roomId b = (if \<not> confirmed then b else snd (deleteRoom roomId b))"

text \<open>
  The room list renders the delete control of a room under
  \<^verbatim>\<open>currentUser.id === room.createdBy && ...\<close>: the control, when there is one, is its click
  handler.
\<close>

definition deleteControl :: "user \<Rightarrow> room \<Rightarrow> (bool \<Rightarrow> backend \<Rightarrow> backend) option" where
  "deleteControl currentUser room =
     (if u_id currentUser = r_createdBy room
      then Some (\<lambda>confirmed. handleDeleteRoom confirmed (r_id room))
      else None)"

section \<open>Decimal printing is injective\<close>






section \<open>What each command returns and writes\<close>

text \<open>
  Each command in one equation, with the collection it loads written as the view
  \<open>users_of\<close>, \<open>rooms_of\<close> or \<open>messages_of\<close>: the two cases of \<open>getStorage\<close> (key
  present, key absent) give the same result in these terms.
\<close>

lemma rooms_of_stored: "rooms_of (s\<lparr>chat_rooms := Some rs\<rparr>) = rs"
  by (simp add: rooms_of_def getStorage_def)

lemma users_of_stored: "users_of (s\<lparr>chat_users := Some us\<rparr>) = us"
  by (simp add: users_of_def getStorage_def)

lemma messages_of_stored: "messages_of (s\<lparr>chat_messages := Some ms\<rparr>) = ms"
  by (simp add: messages_of_def getStorage_def)

lemma deleteRoom_unfold:
  "deleteRoom roomId s =
     (Inr (), s\<lparr>chat_rooms := Some (filter (\<lambda>r. r_id r \<noteq> roomId) (rooms_of s)),
                pending := pending s @ [ROOM_DELETED roomId]\<rparr>)"
  by (cases "chat_rooms s")
    (simp_all add: deleteRoom_def rooms_of_def getStorage_def broadcast_def Let_def)

lemma createRoom_unfold:
  "createRoom room t_id s =
     (Inr (newRoom room t_id),
      s\<lparr>chat_rooms := Some (rooms_of s @ [newRoom room t_id]),
        pending := pending s @ [ROOM_CREATED (newRoom room t_id)]\<rparr>)"
  by (cases "chat_rooms s")
    (simp_all add: createRoom_def rooms_of_def getStorage_def broadcast_def Let_def)

lemma sendMessage_unfold:
  "sendMessage message t_id t_stamp s =
     (Inr (newMessage message t_id t_stamp),
      s\<lparr>chat_messages := Some (messages_of s @ [newMessage message t_id t_stamp]),
        pending := pending s @ [NEW_MESSAGE (newMessage message t_id t_stamp)]\<rparr>)"
  by (cases "chat_messages s")
    (simp_all add: sendMessage_def messages_of_def getStorage_def broadcast_def Let_def)

lemma getMessages_unfold:
  "getMessages roomId s =
     (Inr (filter (\<lambda>m. m_roomId m = roomId) (messages_of s)),
      s\<lparr>chat_messages := Some (messages_of s)\<rparr>)"
  by (cases "chat_messages s") (simp_all add: getMessages_def messages_of_def getStorage_def)

lemma getRooms_unfold:
  "getRooms s = (Inr (rooms_of s), s\<lparr>chat_rooms := Some (rooms_of s)\<rparr>)"
  by (cases "chat_rooms s") (simp_all add: getRooms_def rooms_of_def getStorage_def)

lemma register_unfold:
  "register name email password t_id t_avatar s =
     (if email \<in> u_email ` set (users_of s)
      then (Inl EmailTaken, s\<lparr>chat_users := Some (users_of s)\<rparr>)
      else
        (Inr (newUser name email password t_id t_avatar),
         s\<lparr>chat_users := Some (users_of s @ [newUser name email password t_id t_avatar]),
           pending := pending s @ [USER_JOINED (newUser name email password t_id t_avatar)]\<rparr>))"
proof -
  have "(find (\<lambda>u. u_email u = email) (users_of s) \<noteq> None) = (email \<in> u_email ` set (users_of s))"
    by (auto simp: find_None_iff)
  then show ?thesis
    by (cases "chat_users s")
      (simp_all add: register_def users_of_def getStorage_def broadcast_def Let_def)
qed

lemma login_unfold:
  "login email password s =
     (case find (\<lambda>u. u_email u = email \<and> u_password u = Some password) (users_of s) of
        None \<Rightarrow> (Inl InvalidCredentials, s\<lparr>chat_users := Some (users_of s)\<rparr>)
      | Some found \<Rightarrow>
          (Inr (found\<lparr>u_isOnline := True\<rparr>),
           s\<lparr>chat_users :=
                Some (map (\<lambda>u. if u_id u = u_id found then found\<lparr>u_isOnline := True\<rparr> else u)
                        (users_of s)),
             pending := pending s @ [USER_UPDATE (found\<lparr>u_isOnline := True\<rparr>)]\<rparr>))"
  by (cases "chat_users s")
    (simp_all add: login_def users_of_def getStorage_def broadcast_def Let_def
      split: option.split)

lemma find_append_none:
  "find P xs = None \<Longrightarrow> find P (xs @ ys) = find P ys"
  by (induction xs) (auto split: if_splits)

section \<open>Deleting a room\<close>

text \<open>
  Claim C1, as stated: a \<^verbatim>\<open>deleteRoom\<close> of room \<open>r\<close> by a requester other than its owner
  fails with \<open>NotOwner\<close> and the room stays listed. The command has the signature
  \<^verbatim>\<open>deleteRoom(roomId)\<close>: it is not told who asks, so a call made on behalf of \<open>u2\<close> is the
  same call. On the seeded store, room \<open>r3\<close> belongs to \<open>u1\<close>; the call is fulfilled and
  \<open>r3\<close> is gone.
\<close>

theorem deleteRoom_non_owner_counterexample:
  "''r3'' \<in> r_id ` set (rooms_of backend0) \<and>
   map r_createdBy (filter (\<lambda>r. r_id r = ''r3'') (rooms_of backend0)) = [''u1''] \<and>
   fst (deleteRoom ''r3'' backend0) \<noteq> Inl NotOwner \<and>
   fst (getRooms (snd (deleteRoom ''r3'' backend0))) = Inr (take 2 INITIAL_ROOMS) \<and>
   ''r3'' \<notin> r_id ` set (rooms_of (snd (deleteRoom ''r3'' backend0)))"
  by code_simp

text \<open>
  Claim C1, amended: \<^verbatim>\<open>deleteRoom(roomId)\<close> takes no requester and checks no owner. For
  every store and every room id it is fulfilled, the rooms collection afterwards is the
  former one without the rooms of that id, in the same order, so no room of that id is
  listed any more, and \<open>ROOM_DELETED\<close> is published. Ownership is checked by the view
  only: it renders a room's delete control exactly for the user whose id is the room's
  \<^verbatim>\<open>createdBy\<close>.
\<close>

theorem deleteRoom_any_requester:
  "fst (deleteRoom roomId s) = Inr () \<and>
   fst (getRooms (snd (deleteRoom roomId s)))
     = Inr (filter (\<lambda>r. r_id r \<noteq> roomId) (rooms_of s)) \<and>
   rooms_of (snd (deleteRoom roomId s)) = filter (\<lambda>r. r_id r \<noteq> roomId) (rooms_of s) \<and>
   roomId \<notin> r_id ` set (rooms_of (snd (deleteRoom roomId s))) \<and>
   pending (snd (deleteRoom roomId s)) = pending s @ [ROOM_DELETED roomId] \<and>
   (deleteControl currentUser room = None) = (u_id currentUser \<noteq> r_createdBy room)"
  by (auto simp add: deleteRoom_unfold getRooms_unfold rooms_of_def getStorage_def
      deleteControl_def)

text \<open>
  Claim C10: for a room id that no room of the collection has, \<^verbatim>\<open>deleteRoom\<close> does not
  fail with \<open>RoomNotFound\<close>. It is fulfilled, writes back a sequence equal to the one it
  loaded, and still publishes \<open>ROOM_DELETED\<close> with that id.
\<close>

theorem deleteRoom_unknown_room:
  assumes "roomId \<notin> r_id ` set (rooms_of s)"
  shows "fst (deleteRoom roomId s) = Inr () \<and>
         fst (deleteRoom roomId s) \<noteq> Inl RoomNotFound \<and>
         chat_rooms (snd (deleteRoom roomId s)) = Some (rooms_of s) \<and>
         rooms_of (snd (deleteRoom roomId s)) = rooms_of s \<and>
         pending (snd (deleteRoom roomId s)) = pending s @ [ROOM_DELETED roomId]"
proof -
  from assms have "filter (\<lambda>r. r_id r \<noteq> roomId) (rooms_of s) = rooms_of s"
    by (auto simp: filter_id_conv)
  then show ?thesis
    by (simp add: deleteRoom_unfold rooms_of_def getStorage_def)
qed

text \<open>Witness for C10: room \<open>r9\<close> on the seeded store, which has rooms \<open>r1\<close> to \<open>r3\<close>.\<close>

theorem deleteRoom_unknown_room_witness:
  "''r9'' \<notin> r_id ` set (rooms_of backend0) \<and>
   fst (deleteRoom ''r9'' backend0) = Inr () \<and>
   rooms_of (snd (deleteRoom ''r9'' backend0)) = INITIAL_ROOMS \<and>
   pending (snd (deleteRoom ''r9'' backend0)) = [ROOM_DELETED ''r9'']"
proof -
  have h: "''r9'' \<notin> r_id ` set (rooms_of backend0)"
    by (simp add: rooms_of_def getStorage_def backend0_def INITIAL_ROOMS_def)
  have r: "rooms_of backend0 = INITIAL_ROOMS" "pending backend0 = []"
    by (simp_all add: rooms_of_def getStorage_def backend0_def)
  from deleteRoom_unknown_room [OF h] h r show ?thesis
    by simp
qed

section \<open>Creating a room\<close>

text \<open>
  Claim C2, as stated: \<^verbatim>\<open>createRoom\<close> of a private room with an empty credential fails
  with \<open>MissingPassword\<close>, adds no room and publishes nothing. On the seeded store, at
  clock reading 7, the call is fulfilled, the collection has grown and \<open>ROOM_CREATED\<close> is
  published.
\<close>

theorem createRoom_empty_credential_counterexample:
  "fst (createRoom \<lparr>ri_name = ''den'', ri_isPrivate = True, ri_password = Some [],
                     ri_createdBy = ''u1'', ri_description = None\<rparr> 7 backend0)
     \<noteq> Inl MissingPassword \<and>
   rooms_of (snd (createRoom \<lparr>ri_name = ''den'', ri_isPrivate = True, ri_password = Some [],
                     ri_createdBy = ''u1'', ri_description = None\<rparr> 7 backend0))
     \<noteq> rooms_of backend0 \<and>
   pending (snd (createRoom \<lparr>ri_name = ''den'', ri_isPrivate = True, ri_password = Some [],
                     ri_createdBy = ''u1'', ri_description = None\<rparr> 7 backend0))
     = [ROOM_CREATED \<lparr>r_id = ''r7'', r_name = ''den'', r_isPrivate = True, r_password = Some [],
                      r_createdBy = ''u1'', r_description = None\<rparr>]"
  by code_simp

text \<open>
  Claim C2, amended: \<^verbatim>\<open>createRoom\<close> validates nothing. For every room specification,
  private or not, with a credential that is non-empty, empty or absent, it is fulfilled
  with the specification under the id \<open>r\<close> followed by the clock reading, appends that room
  to the rooms collection and publishes \<open>ROOM_CREATED\<close> with it; the room keeps the
  specification's privacy flag and credential as given.
\<close>

theorem createRoom_no_validation:
  "fst (createRoom room t_id s) = Inr (newRoom room t_id) \<and>
   rooms_of (snd (createRoom room t_id s)) = rooms_of s @ [newRoom room t_id] \<and>
   pending (snd (createRoom room t_id s)) = pending s @ [ROOM_CREATED (newRoom room t_id)] \<and>
   r_id (newRoom room t_id) = ''r'' @ show_nat t_id \<and>
   r_isPrivate (newRoom room t_id) = ri_isPrivate room \<and>
   r_password (newRoom room t_id) = ri_password room"
  by (simp add: createRoom_unfold rooms_of_def getStorage_def newRoom_def)

section \<open>Sending a message\<close>

text \<open>
  Claim C3, as stated: a \<^verbatim>\<open>sendMessage\<close> with empty content, or for a room id that no
  room has, fails, stores nothing and publishes nothing. On the seeded store a message
  with empty content for the unknown room \<open>nowhere\<close> is accepted, stored and published.
\<close>

theorem sendMessage_invalid_counterexample:
  "''nowhere'' \<notin> r_id ` set (rooms_of backend0) \<and>
   fst (sendMessage \<lparr>mi_roomId = ''nowhere'', mi_senderId = ''u1'', mi_senderName = ''Alice Test'',
                     mi_senderAvatar = ''a'', mi_content = [], mi_type = Text\<rparr> 7 8 backend0)
     = Inr \<lparr>m_id = ''m7'', m_roomId = ''nowhere'', m_senderId = ''u1'',
            m_senderName = ''Alice Test'', m_senderAvatar = ''a'', m_content = [],
            m_type = Text, m_timestamp = 8\<rparr> \<and>
   messages_of (snd (sendMessage \<lparr>mi_roomId = ''nowhere'', mi_senderId = ''u1'',
                     mi_senderName = ''Alice Test'', mi_senderAvatar = ''a'', mi_content = [],
                     mi_type = Text\<rparr> 7 8 backend0))
     = [\<lparr>m_id = ''m7'', m_roomId = ''nowhere'', m_senderId = ''u1'',
         m_senderName = ''Alice Test'', m_senderAvatar = ''a'', m_content = [],
         m_type = Text, m_timestamp = 8\<rparr>] \<and>
   pending (snd (sendMessage \<lparr>mi_roomId = ''nowhere'', mi_senderId = ''u1'',
                     mi_senderName = ''Alice Test'', mi_senderAvatar = ''a'', mi_content = [],
                     mi_type = Text\<rparr> 7 8 backend0))
     = [NEW_MESSAGE \<lparr>m_id = ''m7'', m_roomId = ''nowhere'', m_senderId = ''u1'',
         m_senderName = ''Alice Test'', m_senderAvatar = ''a'', m_content = [],
         m_type = Text, m_timestamp = 8\<rparr>]"
  by code_simp

text \<open>
  Claim C3, amended: \<^verbatim>\<open>sendMessage\<close> validates nothing. Every call, whatever its content
  and room id, is fulfilled with the message it built: the id is \<open>m\<close> followed by the
  first clock reading, the timestamp is the second, the other fields are the argument's.
  The message is appended to the messages collection and exactly one event,
  \<open>NEW_MESSAGE\<close> with that message, is published.
\<close>

theorem sendMessage_no_validation:
  "fst (sendMessage message t_id t_stamp s) = Inr (newMessage message t_id t_stamp) \<and>
   m_id (newMessage message t_id t_stamp) = ''m'' @ show_nat t_id \<and>
   m_timestamp (newMessage message t_id t_stamp) = t_stamp \<and>
   m_roomId (newMessage message t_id t_stamp) = mi_roomId message \<and>
   m_content (newMessage message t_id t_stamp) = mi_content message \<and>
   messages_of (snd (sendMessage message t_id t_stamp s))
     = messages_of s @ [newMessage message t_id t_stamp] \<and>
   pending (snd (sendMessage message t_id t_stamp s))
     = pending s @ [NEW_MESSAGE (newMessage message t_id t_stamp)]"
  by (simp add: sendMessage_unfold messages_of_def getStorage_def newMessage_def)

section \<open>Registration and login\<close>

text \<open>
  Claim C6: \<^verbatim>\<open>register\<close> with an email that a user of the collection already has is
  rejected with \<open>EmailTaken\<close>; no event is published (the queue of broadcasts is as it
  was, so there is no \<open>USER_JOINED\<close>), and the users collection, as every command reads
  it, is unchanged, as are the other keys and the listeners. (When the key was never
  written, \<open>getStorage\<close> has written the seed under it: the collection read before and
  after is the seed.)
\<close>

theorem register_email_taken:
  assumes "email \<in> u_email ` set (users_of s)"
  shows "fst (register name email password t_id t_avatar s) = Inl EmailTaken \<and>
         pending (snd (register name email password t_id t_avatar s)) = pending s \<and>
         users_of (snd (register name email password t_id t_avatar s)) = users_of s \<and>
         chat_rooms (snd (register name email password t_id t_avatar s)) = chat_rooms s \<and>
         chat_messages (snd (register name email password t_id t_avatar s)) = chat_messages s \<and>
         listeners (snd (register name email password t_id t_avatar s)) = listeners s"
  using assms by (simp add: register_unfold users_of_stored)

text \<open>Witness for C6: registering with the seeded email of \<open>u2\<close>.\<close>

theorem register_email_taken_witness:
  "''user2@test.com'' \<in> u_email ` set (users_of backend0) \<and>
   fst (register ''Mallory'' ''user2@test.com'' ''pw'' 3 4 backend0) = Inl EmailTaken \<and>
   pending (snd (register ''Mallory'' ''user2@test.com'' ''pw'' 3 4 backend0)) = [] \<and>
   users_of (snd (register ''Mallory'' ''user2@test.com'' ''pw'' 3 4 backend0)) = INITIAL_USERS"
proof -
  have h: "''user2@test.com'' \<in> u_email ` set (users_of backend0)"
    by (simp add: users_of_def getStorage_def backend0_def INITIAL_USERS_def)
  have r: "users_of backend0 = INITIAL_USERS" "pending backend0 = []"
    by (simp_all add: users_of_def getStorage_def backend0_def)
  from register_email_taken [OF h, of "''Mallory''" "''pw''" 3 4] h r show ?thesis
    by simp
qed

text \<open>
  Claim C5: when no user of the collection has the email, \<^verbatim>\<open>register(name, email,
  credential)\<close> is fulfilled, and a \<^verbatim>\<open>login(email, credential)\<close> on the resulting store is
  fulfilled with a user whose email is the given one (the user just registered).
\<close>

theorem register_then_login:
  assumes "email \<notin> u_email ` set (users_of s)"
  shows "fst (register name email password t_id t_avatar s)
           = Inr (newUser name email password t_id t_avatar) \<and>
         fst (login email password (snd (register name email password t_id t_avatar s)))
           = Inr (newUser name email password t_id t_avatar) \<and>
         u_email (newUser name email password t_id t_avatar) = email"
proof -
  let ?nu = "newUser name email password t_id t_avatar"
  let ?P = "\<lambda>u. u_email u = email \<and> u_password u = Some password"
  have none: "find ?P (users_of s) = None"
    using assms by (auto simp: find_None_iff)
  have nu: "?P ?nu" "?nu\<lparr>u_isOnline := True\<rparr> = ?nu"
    by (simp_all add: newUser_def)
  have "find ?P (users_of s @ [?nu]) = Some ?nu"
    using none nu(1) by (simp add: find_append_none)
  with nu(2) assms show ?thesis
    by (simp add: register_unfold login_unfold users_of_def getStorage_def)
       (simp add: newUser_def)
qed

text \<open>Witness for C5: a new email on the seeded store.\<close>

theorem register_then_login_witness:
  "''carol@test.com'' \<notin> u_email ` set (users_of backend0) \<and>
   fst (register ''Carol'' ''carol@test.com'' ''s3cret'' 41 42 backend0)
     = Inr (newUser ''Carol'' ''carol@test.com'' ''s3cret'' 41 42) \<and>
   fst (login ''carol@test.com'' ''s3cret''
         (snd (register ''Carol'' ''carol@test.com'' ''s3cret'' 41 42 backend0)))
     = Inr (newUser ''Carol'' ''carol@test.com'' ''s3cret'' 41 42) \<and>
   u_email (newUser ''Carol'' ''carol@test.com'' ''s3cret'' 41 42) = ''carol@test.com''"
proof -
  have h: "''carol@test.com'' \<notin> u_email ` set (users_of backend0)"
    by (simp add: users_of_def getStorage_def backend0_def INITIAL_USERS_def)
  from register_then_login [OF h, of "''Carol''" "''s3cret''" 41 42] h show ?thesis
    by simp
qed

text \<open>
  Claim C7: \<^verbatim>\<open>login(email, credential)\<close> is rejected with \<open>InvalidCredentials\<close> exactly
  when no user of the collection has both that email and that credential. When some user
  has, the first such user (position \<open>i\<close>) is returned with \<^verbatim>\<open>isOnline\<close> set; the
  collection is written back with that user at its position (and at the position of every
  user sharing its id); and \<open>USER_UPDATE\<close> with the returned user is published.
\<close>

theorem login_correct:
  "(fst (login email password s) = Inl InvalidCredentials) =
     (\<not> (\<exists>u\<in>set (users_of s). u_email u = email \<and> u_password u = Some password)) \<and>
   ((\<exists>u\<in>set (users_of s). u_email u = email \<and> u_password u = Some password) \<longrightarrow>
      (\<exists>i<length (users_of s).
          u_email (users_of s ! i) = email \<and> u_password (users_of s ! i) = Some password \<and>
          fst (login email password s) = Inr ((users_of s ! i)\<lparr>u_isOnline := True\<rparr>) \<and>
          users_of (snd (login email password s))
            = map (\<lambda>u. if u_id u = u_id (users_of s ! i)
                        then (users_of s ! i)\<lparr>u_isOnline := True\<rparr> else u) (users_of s) \<and>
          users_of (snd (login email password s)) ! i = (users_of s ! i)\<lparr>u_isOnline := True\<rparr> \<and>
          chat_users (snd (login email password s))
            = Some (users_of (snd (login email password s))) \<and>
          pending (snd (login email password s))
            = pending s @ [USER_UPDATE ((users_of s ! i)\<lparr>u_isOnline := True\<rparr>)]))"
proof -
  let ?P = "\<lambda>u. u_email u = email \<and> u_password u = Some password"
  show ?thesis
  proof (cases "find ?P (users_of s)")
    case None
    then have "\<not> (\<exists>u\<in>set (users_of s). ?P u)"
      by (simp add: find_None_iff)
    with None show ?thesis
      by (simp add: login_unfold)
  next
    case (Some found)
    then obtain i where i: "i < length (users_of s)" "?P (users_of s ! i)"
        "found = users_of s ! i"
      by (auto simp: find_Some_iff)
    then have ex: "\<exists>u\<in>set (users_of s). ?P u"
      by (metis nth_mem)
    have res: "login email password s =
        (Inr (found\<lparr>u_isOnline := True\<rparr>),
         s\<lparr>chat_users :=
              Some (map (\<lambda>u. if u_id u = u_id found then found\<lparr>u_isOnline := True\<rparr> else u)
                      (users_of s)),
           pending := pending s @ [USER_UPDATE (found\<lparr>u_isOnline := True\<rparr>)]\<rparr>)"
      using Some by (simp add: login_unfold)
    have "fst (login email password s) \<noteq> Inl InvalidCredentials"
      by (simp add: res)
    moreover have "\<exists>i<length (users_of s).
          u_email (users_of s ! i) = email \<and> u_password (users_of s ! i) = Some password \<and>
          fst (login email password s) = Inr ((users_of s ! i)\<lparr>u_isOnline := True\<rparr>) \<and>
          users_of (snd (login email password s))
            = map (\<lambda>u. if u_id u = u_id (users_of s ! i)
                        then (users_of s ! i)\<lparr>u_isOnline := True\<rparr> else u) (users_of s) \<and>
          users_of (snd (login email password s)) ! i = (users_of s ! i)\<lparr>u_isOnline := True\<rparr> \<and>
          chat_users (snd (login email password s))
            = Some (users_of (snd (login email password s))) \<and>
          pending (snd (login email password s))
            = pending s @ [USER_UPDATE ((users_of s ! i)\<lparr>u_isOnline := True\<rparr>)]"
      using i by (intro exI[of _ i]) (simp add: res users_of_def getStorage_def)
    ultimately show ?thesis
      using ex by simp
  qed
qed

text \<open>
  Witness for C7: on the seeded store, the seeded credentials of \<open>u1\<close> are accepted and
  a wrong credential for the same email is rejected.
\<close>

theorem login_correct_witness:
  "(\<exists>u\<in>set (users_of backend0). u_email u = ''user1@test.com'' \<and> u_password u = Some ''password123'') \<and>
   fst (login ''user1@test.com'' ''password123'' backend0) \<noteq> Inl InvalidCredentials \<and>
   (\<exists>i<length (users_of backend0).
      fst (login ''user1@test.com'' ''password123'' backend0)
        = Inr ((users_of backend0 ! i)\<lparr>u_isOnline := True\<rparr>) \<and>
      pending (snd (login ''user1@test.com'' ''password123'' backend0))
        = pending backend0 @ [USER_UPDATE ((users_of backend0 ! i)\<lparr>u_isOnline := True\<rparr>)]) \<and>
   fst (login ''user1@test.com'' ''letmein'' backend0) = Inl InvalidCredentials"
proof -
  have h: "\<exists>u\<in>set (users_of backend0).
      u_email u = ''user1@test.com'' \<and> u_password u = Some ''password123''"
    by (simp add: users_of_def getStorage_def backend0_def INITIAL_USERS_def)
  have n: "\<not> (\<exists>u\<in>set (users_of backend0).
      u_email u = ''user1@test.com'' \<and> u_password u = Some ''letmein'')"
    by (simp add: users_of_def getStorage_def backend0_def INITIAL_USERS_def)
  note ok = login_correct [of "''user1@test.com''" "''password123''" backend0]
  note ko = login_correct [of "''user1@test.com''" "''letmein''" backend0]
  from ok h have a: "fst (login ''user1@test.com'' ''password123'' backend0) \<noteq> Inl InvalidCredentials"
    by blast
  from ok h have b: "\<exists>i<length (users_of backend0).
      fst (login ''user1@test.com'' ''password123'' backend0)
        = Inr ((users_of backend0 ! i)\<lparr>u_isOnline := True\<rparr>) \<and>
      pending (snd (login ''user1@test.com'' ''password123'' backend0))
        = pending backend0 @ [USER_UPDATE ((users_of backend0 ! i)\<lparr>u_isOnline := True\<rparr>)]"
    by blast
  from ko n have c: "fst (login ''user1@test.com'' ''letmein'' backend0) = Inl InvalidCredentials"
    by blast
  from h a b c show ?thesis
    by (intro conjI)
qed

section \<open>The event bus\<close>

lemma forEach_listeners_eq:
  "forEach_listeners h ev ls =
     takeWhile (\<lambda>l. h l ev = Returns) ls @ take 1 (dropWhile (\<lambda>l. h l ev = Returns) ls)"
  by (induction ls) (auto split: handler_result.splits)

lemma forEach_listeners_all:
  "\<forall>l\<in>set ls. h l ev = Returns \<Longrightarrow> forEach_listeners h ev ls = ls"
  by (induction ls) auto

lemma subscribeToSocket_distinct:
  "distinct (listeners s) \<Longrightarrow> distinct (listeners (subscribeToSocket callback s))"
  by (simp add: subscribeToSocket_def)

text \<open>
  Claim C8, as stated: a published event reaches every subscribed handler in subscription
  order, and a handler that throws does not keep it from the others. Listeners 1 and 2
  subscribe in this order and \<open>ROOM_DELETED\<close> is broadcast; when listener 1 throws,
  listener 2 is never called.
\<close>

theorem broadcast_throwing_listener_counterexample:
  "listeners (subscribeToSocket 2 (subscribeToSocket 1 backend0)) = [1, 2] \<and>
   fst (fire (\<lambda>l ev. if l = 1 then Throws else Returns)
          (broadcast (ROOM_DELETED ''r1'') (subscribeToSocket 2 (subscribeToSocket 1 backend0))))
     = [(1, ROOM_DELETED ''r1'')] \<and>
   (2, ROOM_DELETED ''r1'') \<notin> set (fst (fire (\<lambda>l ev. if l = 1 then Throws else Returns)
          (broadcast (ROOM_DELETED ''r1'') (subscribeToSocket 2 (subscribeToSocket 1 backend0)))))"
  by code_simp

text \<open>
  Claim C8, amended: when the timer of a broadcast fires, the event is delivered to the
  handlers subscribed at that moment, in subscription order, up to and including the first
  handler that throws; the handlers after it do not get the event. When no handler throws,
  every subscribed handler gets it, in subscription order. The broadcast leaves the queue
  and the listeners stay as they were.
\<close>

theorem fire_delivers_until_throw:
  assumes "pending s = ev # evs"
  shows "fst (fire h s) =
           map (\<lambda>l. (l, ev))
             (takeWhile (\<lambda>l. h l ev = Returns) (listeners s) @
              take 1 (dropWhile (\<lambda>l. h l ev = Returns) (listeners s))) \<and>
         ((\<forall>l\<in>set (listeners s). h l ev = Returns) \<longrightarrow>
            fst (fire h s) = map (\<lambda>l. (l, ev)) (listeners s)) \<and>
         pending (snd (fire h s)) = evs \<and>
         listeners (snd (fire h s)) = listeners s"
  using assms
  by (simp add: fire_def forEach_listeners_all) (simp add: forEach_listeners_eq)

text \<open>Witness for C8: two listeners that return; both get the event, 1 before 2.\<close>

theorem fire_delivers_until_throw_witness:
  "pending (broadcast (ROOM_DELETED ''r1'') (subscribeToSocket 2 (subscribeToSocket 1 backend0)))
     = [ROOM_DELETED ''r1''] \<and>
   fst (fire (\<lambda>l ev. Returns)
          (broadcast (ROOM_DELETED ''r1'') (subscribeToSocket 2 (subscribeToSocket 1 backend0))))
     = [(1, ROOM_DELETED ''r1''), (2, ROOM_DELETED ''r1'')]"
proof -
  let ?s = "broadcast (ROOM_DELETED ''r1'') (subscribeToSocket 2 (subscribeToSocket 1 backend0))"
  have p: "pending ?s = [ROOM_DELETED ''r1'']"
    by (simp add: broadcast_def subscribeToSocket_def backend0_def)
  have l: "listeners ?s = [1, 2]"
    by (simp add: broadcast_def subscribeToSocket_def backend0_def)
  from fire_delivers_until_throw [OF p, of "\<lambda>l ev. Returns"] p l show ?thesis
    by simp
qed

section \<open>Joining a private room\<close>

lemma executeJoinRoom_unfold:
  "executeJoinRoom roomId innerWidth (ui, b) =
     (Inr (),
      (if innerWidth < 768
       then ui\<lparr>activeRoomId := Some roomId,
               messages := filter (\<lambda>m. m_roomId m = roomId) (messages_of b),
               sidebarOpen := False\<rparr>
       else ui\<lparr>activeRoomId := Some roomId,
               messages := filter (\<lambda>m. m_roomId m = roomId) (messages_of b)\<rparr>),
      b\<lparr>chat_messages := Some (messages_of b)\<rparr>)"
  by (simp add: executeJoinRoom_def getMessages_unfold Let_def)

lemma messages_of_raw:
  "messages_of b = (case chat_messages b of None \<Rightarrow> [] | Some ms \<Rightarrow> ms)"
  by (simp add: messages_of_def getStorage_def split: option.split)

text \<open>
  Claim C9: clicking a private room that is not the active one opens the credential
  challenge without touching the backend. Submitting a credential other than the room's
  sets the error \<^verbatim>\<open>Incorrect password\<close> and nothing else: the active room and the
  messages shown stay as they were (no fetch) and the backend is the same. Submitting the
  room's credential makes the room active, closes the challenge and loads the room's
  messages: the messages shown are those held under the key \<^verbatim>\<open>chat_messages\<close> (none
  when the key was never written) whose room id is the room's, in stored order, which is
  what \<^verbatim>\<open>getMessages\<close> of the room returns. The key then holds the same sequence, and
  the other collections, the queue of broadcasts and the listeners are as before.
\<close>

theorem join_private_room:
  assumes "r_isPrivate room" and "activeRoomId ui \<noteq> Some (r_id room)"
  shows
    "let challenge = ui\<lparr>pendingRoom := Some room, joinPassword := [], joinError := [],
                         showPasswordModal := True\<rparr>;
         typed = onJoinPasswordChange pw challenge;
         stored = (case chat_messages b of None \<Rightarrow> [] | Some ms \<Rightarrow> ms)
     in handleJoinRoom room w (ui, b) = (Inr (), challenge, b) \<and>
        messages typed = messages ui \<and> activeRoomId typed = activeRoomId ui \<and>
        (Some pw \<noteq> r_password room \<longrightarrow>
           handleJoinPrivateSubmit w (typed, b)
             = (Inr (), typed\<lparr>joinError := ''Incorrect password''\<rparr>, b)) \<and>
        (Some pw = r_password room \<longrightarrow>
           (\<exists>ui' b'. handleJoinPrivateSubmit w (typed, b) = (Inr (), ui', b') \<and>
              activeRoomId ui' = Some (r_id room) \<and>
              messages ui' = filter (\<lambda>m. m_roomId m = r_id room) stored \<and>
              fst (getMessages (r_id room) b) = Inr (messages ui') \<and>
              (\<forall>m\<in>set (messages ui'). m_roomId m = r_id room) \<and>
              messages ui' = filter (\<lambda>m. m_roomId m = r_id room) (messages_of b) \<and>
              showPasswordModal ui' = False \<and> pendingRoom ui' = None \<and>
              chat_messages b' = Some stored \<and>
              messages_of b' = messages_of b \<and> chat_users b' = chat_users b \<and>
              chat_rooms b' = chat_rooms b \<and> pending b' = pending b \<and>
              listeners b' = listeners b))"
proof -
  have 1: "handleJoinRoom room w (ui, b) =
      (Inr (), ui\<lparr>pendingRoom := Some room, joinPassword := [], joinError := [],
                   showPasswordModal := True\<rparr>, b)"
    using assms by (auto simp: handleJoinRoom_def)
  show ?thesis
    unfolding Let_def
    apply (intro conjI impI)
        apply (rule 1)
       apply (simp add: onJoinPasswordChange_def)
      apply (simp add: onJoinPasswordChange_def)
     apply (simp add: handleJoinPrivateSubmit_def onJoinPasswordChange_def)
    apply (simp add: handleJoinPrivateSubmit_def onJoinPasswordChange_def
        executeJoinRoom_unfold closePasswordModal_def getMessages_unfold messages_of_raw)
    done
qed

text \<open>
  Witness for C9: the seeded private room \<open>r3\<close> (credential \<open>123\<close>) from the initial
  view, on a store holding two messages of \<open>r3\<close> with one of \<open>r1\<close> between them.
  With the wrong credential \<open>000\<close> the view still shows no message and the backend is
  the same; with the right one it shows the two messages of \<open>r3\<close>, in stored order.
\<close>

theorem join_private_room_witness:
  "r_isPrivate (INITIAL_ROOMS ! 2) \<and> activeRoomId chat_ui0 \<noteq> Some (r_id (INITIAL_ROOMS ! 2)) \<and>
   Some ''000'' \<noteq> r_password (INITIAL_ROOMS ! 2) \<and>
   Some ''123'' = r_password (INITIAL_ROOMS ! 2) \<and>
   chat_messages (send_all
        [(\<lparr>mi_roomId = ''r3'', mi_senderId = ''u1'', mi_senderName = ''Alice Test'',
          mi_senderAvatar = ''a'', mi_content = ''psst'', mi_type = Text\<rparr>, 5, 5),
         (\<lparr>mi_roomId = ''r1'', mi_senderId = ''u1'', mi_senderName = ''Alice Test'',
          mi_senderAvatar = ''a'', mi_content = ''hi'', mi_type = Text\<rparr>, 6, 6),
         (\<lparr>mi_roomId = ''r3'', mi_senderId = ''u1'', mi_senderName = ''Alice Test'',
          mi_senderAvatar = ''a'', mi_content = ''shh'', mi_type = Text\<rparr>, 7, 7)] backend0)
     = Some [\<lparr>m_id = ''m5'', m_roomId = ''r3'', m_senderId = ''u1'', m_senderName = ''Alice Test'',
          m_senderAvatar = ''a'', m_content = ''psst'', m_type = Text, m_timestamp = 5\<rparr>,
         \<lparr>m_id = ''m6'', m_roomId = ''r1'', m_senderId = ''u1'', m_senderName = ''Alice Test'',
          m_senderAvatar = ''a'', m_content = ''hi'', m_type = Text, m_timestamp = 6\<rparr>,
         \<lparr>m_id = ''m7'', m_roomId = ''r3'', m_senderId = ''u1'', m_senderName = ''Alice Test'',
          m_senderAvatar = ''a'', m_content = ''shh'', m_type = Text, m_timestamp = 7\<rparr>] \<and>
   handleJoinPrivateSubmit 1024
     (onJoinPasswordChange ''000'' (chat_ui0\<lparr>pendingRoom := Some (INITIAL_ROOMS ! 2), joinPassword := [], joinError := [],
                   showPasswordModal := True\<rparr>),
      (send_all
        [(\<lparr>mi_roomId = ''r3'', mi_senderId = ''u1'', mi_senderName = ''Alice Test'',
          mi_senderAvatar = ''a'', mi_content = ''psst'', mi_type = Text\<rparr>, 5, 5),
         (\<lparr>mi_roomId = ''r1'', mi_senderId = ''u1'', mi_senderName = ''Alice Test'',
          mi_senderAvatar = ''a'', mi_content = ''hi'', mi_type = Text\<rparr>, 6, 6),
         (\<lparr>mi_roomId = ''r3'', mi_senderId = ''u1'', mi_senderName = ''Alice Test'',
          mi_senderAvatar = ''a'', mi_content = ''shh'', mi_type = Text\<rparr>, 7, 7)] backend0))
     = (Inr (),
        (onJoinPasswordChange ''000'' (chat_ui0\<lparr>pendingRoom := Some (INITIAL_ROOMS ! 2), joinPassword := [], joinError := [],
                   showPasswordModal := True\<rparr>))\<lparr>joinError := ''Incorrect password''\<rparr>,
        (send_all
        [(\<lparr>mi_roomId = ''r3'', mi_senderId = ''u1'', mi_senderName = ''Alice Test'',
          mi_senderAvatar = ''a'', mi_content = ''psst'', mi_type = Text\<rparr>, 5, 5),
         (\<lparr>mi_roomId = ''r1'', mi_senderId = ''u1'', mi_senderName = ''Alice Test'',
          mi_senderAvatar = ''a'', mi_content = ''hi'', mi_type = Text\<rparr>, 6, 6),
         (\<lparr>mi_roomId = ''r3'', mi_senderId = ''u1'', mi_senderName = ''Alice Test'',
          mi_senderAvatar = ''a'', mi_content = ''shh'', mi_type = Text\<rparr>, 7, 7)] backend0)) \<and>
   messages ((onJoinPasswordChange ''000'' (chat_ui0\<lparr>pendingRoom := Some (INITIAL_ROOMS ! 2), joinPassword := [], joinError := [],
                   showPasswordModal := True\<rparr>))\<lparr>joinError := ''Incorrect password''\<rparr>) = [] \<and>
   activeRoomId (fst (snd (handleJoinPrivateSubmit 1024
     (onJoinPasswordChange ''123'' (chat_ui0\<lparr>pendingRoom := Some (INITIAL_ROOMS ! 2), joinPassword := [], joinError := [],
                   showPasswordModal := True\<rparr>),
      (send_all
        [(\<lparr>mi_roomId = ''r3'', mi_senderId = ''u1'', mi_senderName = ''Alice Test'',
          mi_senderAvatar = ''a'', mi_content = ''psst'', mi_type = Text\<rparr>, 5, 5),
         (\<lparr>mi_roomId = ''r1'', mi_senderId = ''u1'', mi_senderName = ''Alice Test'',
          mi_senderAvatar = ''a'', mi_content = ''hi'', mi_type = Text\<rparr>, 6, 6),
         (\<lparr>mi_roomId = ''r3'', mi_senderId = ''u1'', mi_senderName = ''Alice Test'',
          mi_senderAvatar = ''a'', mi_content = ''shh'', mi_type = Text\<rparr>, 7, 7)] backend0)))))
     = Some ''r3'' \<and>
   messages (fst (snd (handleJoinPrivateSubmit 1024
     (onJoinPasswordChange ''123'' (chat_ui0\<lparr>pendingRoom := Some (INITIAL_ROOMS ! 2), joinPassword := [], joinError := [],
                   showPasswordModal := True\<rparr>),
      (send_all
        [(\<lparr>mi_roomId = ''r3'', mi_senderId = ''u1'', mi_senderName = ''Alice Test'',
          mi_senderAvatar = ''a'', mi_content = ''psst'', mi_type = Text\<rparr>, 5, 5),
         (\<lparr>mi_roomId = ''r1'', mi_senderId = ''u1'', mi_senderName = ''Alice Test'',
          mi_senderAvatar = ''a'', mi_content = ''hi'', mi_type = Text\<rparr>, 6, 6),
         (\<lparr>mi_roomId = ''r3'', mi_senderId = ''u1'', mi_senderName = ''Alice Test'',
          mi_senderAvatar = ''a'', mi_content = ''shh'', mi_type = Text\<rparr>, 7, 7)] backend0)))))
     = [\<lparr>m_id = ''m5'', m_roomId = ''r3'', m_senderId = ''u1'', m_senderName = ''Alice Test'',
          m_senderAvatar = ''a'', m_content = ''psst'', m_type = Text, m_timestamp = 5\<rparr>,
         \<lparr>m_id = ''m7'', m_roomId = ''r3'', m_senderId = ''u1'', m_senderName = ''Alice Test'',
          m_senderAvatar = ''a'', m_content = ''shh'', m_type = Text, m_timestamp = 7\<rparr>]"
proof -
  let ?b = "(send_all
        [(\<lparr>mi_roomId = ''r3'', mi_senderId = ''u1'', mi_senderName = ''Alice Test'',
          mi_senderAvatar = ''a'', mi_content = ''psst'', mi_type = Text\<rparr>, 5, 5),
         (\<lparr>mi_roomId = ''r1'', mi_senderId = ''u1'', mi_senderName = ''Alice Test'',
          mi_senderAvatar = ''a'', mi_content = ''hi'', mi_type = Text\<rparr>, 6, 6),
         (\<lparr>mi_roomId = ''r3'', mi_senderId = ''u1'', mi_senderName = ''Alice Test'',
          mi_senderAvatar = ''a'', mi_content = ''shh'', mi_type = Text\<rparr>, 7, 7)] backend0)"
  have h: "r_isPrivate (INITIAL_ROOMS ! 2)"
    "activeRoomId chat_ui0 \<noteq> Some (r_id (INITIAL_ROOMS ! 2))"
    by (simp_all add: INITIAL_ROOMS_def chat_ui0_def)
  have p: "Some ''000'' \<noteq> r_password (INITIAL_ROOMS ! 2)"
    "Some ''123'' = r_password (INITIAL_ROOMS ! 2)"
    by (simp_all add: INITIAL_ROOMS_def)
  have rid: "r_id (INITIAL_ROOMS ! 2) = ''r3''"
    by (simp add: INITIAL_ROOMS_def)
  have raw: "chat_messages ?b
     = Some [\<lparr>m_id = ''m5'', m_roomId = ''r3'', m_senderId = ''u1'', m_senderName = ''Alice Test'',
          m_senderAvatar = ''a'', m_content = ''psst'', m_type = Text, m_timestamp = 5\<rparr>,
         \<lparr>m_id = ''m6'', m_roomId = ''r1'', m_senderId = ''u1'', m_senderName = ''Alice Test'',
          m_senderAvatar = ''a'', m_content = ''hi'', m_type = Text, m_timestamp = 6\<rparr>,
         \<lparr>m_id = ''m7'', m_roomId = ''r3'', m_senderId = ''u1'', m_senderName = ''Alice Test'',
          m_senderAvatar = ''a'', m_content = ''shh'', m_type = Text, m_timestamp = 7\<rparr>]"
    by code_simp
  have shown: "filter (\<lambda>m. m_roomId m = ''r3'')
        [\<lparr>m_id = ''m5'', m_roomId = ''r3'', m_senderId = ''u1'', m_senderName = ''Alice Test'',
          m_senderAvatar = ''a'', m_content = ''psst'', m_type = Text, m_timestamp = 5\<rparr>,
         \<lparr>m_id = ''m6'', m_roomId = ''r1'', m_senderId = ''u1'', m_senderName = ''Alice Test'',
          m_senderAvatar = ''a'', m_content = ''hi'', m_type = Text, m_timestamp = 6\<rparr>,
         \<lparr>m_id = ''m7'', m_roomId = ''r3'', m_senderId = ''u1'', m_senderName = ''Alice Test'',
          m_senderAvatar = ''a'', m_content = ''shh'', m_type = Text, m_timestamp = 7\<rparr>]
     = [\<lparr>m_id = ''m5'', m_roomId = ''r3'', m_senderId = ''u1'', m_senderName = ''Alice Test'',
          m_senderAvatar = ''a'', m_content = ''psst'', m_type = Text, m_timestamp = 5\<rparr>,
         \<lparr>m_id = ''m7'', m_roomId = ''r3'', m_senderId = ''u1'', m_senderName = ''Alice Test'',
          m_senderAvatar = ''a'', m_content = ''shh'', m_type = Text, m_timestamp = 7\<rparr>]"
    by simp
  have unfetched: "messages ((onJoinPasswordChange ''000'' (chat_ui0\<lparr>pendingRoom := Some (INITIAL_ROOMS ! 2), joinPassword := [], joinError := [],
                   showPasswordModal := True\<rparr>))\<lparr>joinError := ''Incorrect password''\<rparr>) = []"
    by (simp add: onJoinPasswordChange_def chat_ui0_def)
  note wrong = join_private_room [OF h, where pw = "''000''" and w = 1024 and b = ?b, unfolded Let_def]
  note right = join_private_room [OF h, where pw = "''123''" and w = 1024 and b = ?b, unfolded Let_def]
  from wrong p(1) have a: "handleJoinPrivateSubmit 1024
     (onJoinPasswordChange ''000'' (chat_ui0\<lparr>pendingRoom := Some (INITIAL_ROOMS ! 2), joinPassword := [], joinError := [],
                   showPasswordModal := True\<rparr>), ?b)
     = (Inr (),
        (onJoinPasswordChange ''000'' (chat_ui0\<lparr>pendingRoom := Some (INITIAL_ROOMS ! 2), joinPassword := [], joinError := [],
                   showPasswordModal := True\<rparr>))\<lparr>joinError := ''Incorrect password''\<rparr>, ?b)"
    by blast
  from right p(2) obtain ui' b' where r: "handleJoinPrivateSubmit 1024
     (onJoinPasswordChange ''123'' (chat_ui0\<lparr>pendingRoom := Some (INITIAL_ROOMS ! 2), joinPassword := [], joinError := [],
                   showPasswordModal := True\<rparr>), ?b) = (Inr (), ui', b')"
    and act: "activeRoomId ui' = Some (r_id (INITIAL_ROOMS ! 2))"
    and fetched: "messages ui' = filter (\<lambda>m. m_roomId m = r_id (INITIAL_ROOMS ! 2))
        (case chat_messages ?b of None \<Rightarrow> [] | Some ms \<Rightarrow> ms)"
    by blast
  from r have sel: "fst (snd (handleJoinPrivateSubmit 1024
     (onJoinPasswordChange ''123'' (chat_ui0\<lparr>pendingRoom := Some (INITIAL_ROOMS ! 2), joinPassword := [], joinError := [],
                   showPasswordModal := True\<rparr>), ?b))) = ui'"
    by simp
  have b: "activeRoomId (fst (snd (handleJoinPrivateSubmit 1024
     (onJoinPasswordChange ''123'' (chat_ui0\<lparr>pendingRoom := Some (INITIAL_ROOMS ! 2), joinPassword := [], joinError := [],
                   showPasswordModal := True\<rparr>), ?b)))) = Some ''r3''"
    by (simp only: sel act rid)
  have "messages ui' = filter (\<lambda>m. m_roomId m = ''r3'')
        [\<lparr>m_id = ''m5'', m_roomId = ''r3'', m_senderId = ''u1'', m_senderName = ''Alice Test'',
          m_senderAvatar = ''a'', m_content = ''psst'', m_type = Text, m_timestamp = 5\<rparr>,
         \<lparr>m_id = ''m6'', m_roomId = ''r1'', m_senderId = ''u1'', m_senderName = ''Alice Test'',
          m_senderAvatar = ''a'', m_content = ''hi'', m_type = Text, m_timestamp = 6\<rparr>,
         \<lparr>m_id = ''m7'', m_roomId = ''r3'', m_senderId = ''u1'', m_senderName = ''Alice Test'',
          m_senderAvatar = ''a'', m_content = ''shh'', m_type = Text, m_timestamp = 7\<rparr>]"
    by (simp only: fetched rid raw option.case)
  then have c: "messages (fst (snd (handleJoinPrivateSubmit 1024
     (onJoinPasswordChange ''123'' (chat_ui0\<lparr>pendingRoom := Some (INITIAL_ROOMS ! 2), joinPassword := [], joinError := [],
                   showPasswordModal := True\<rparr>), ?b))))
     = [\<lparr>m_id = ''m5'', m_roomId = ''r3'', m_senderId = ''u1'', m_senderName = ''Alice Test'',
          m_senderAvatar = ''a'', m_content = ''psst'', m_type = Text, m_timestamp = 5\<rparr>,
         \<lparr>m_id = ''m7'', m_roomId = ''r3'', m_senderId = ''u1'', m_senderName = ''Alice Test'',
          m_senderAvatar = ''a'', m_content = ''shh'', m_type = Text, m_timestamp = 7\<rparr>]"
    by (simp only: sel shown)
  from h p raw a unfetched b c show ?thesis
    by (intro conjI)
qed

section \<open>Order of the messages\<close>















end
